theory Spec2Isabelle
  imports Main "HOL-Library.Word"
begin

section \<open>Data model of the metrics builder (pkg/otel/metrics/arrow/metrics.go)\<close>

text \<open>
  The Go builder turns a batch of OTLP metrics into the rows of one Arrow record
  (one column per field of \<open>MetricsSchema\<close>) plus related tables for attributes and
  data points.  Go's \<open>uint16\<close>, \<open>uint8\<close>, \<open>int32\<close> and \<open>int64\<close> are words of that
  width; a nullable column is a list of options, \<open>None\<close> being an Arrow null.
\<close>

type_synonym attrs = "(string \<times> string) list"

record resource =
  r_attributes :: attrs
  r_dropped_attributes_count :: "32 word"

record scope =
  s_name :: string
  s_version :: string
  s_attributes :: attrs
  s_dropped_attributes_count :: "32 word"

datatype data_point = DataPoint int

text \<open>
  \<open>pmetric.Metric\<close>.  \<open>m_type\<close> is \<open>Metric.Type()\<close>, an \<open>int32\<close>.  The fields
  \<open>m_aggregation_temporality\<close>, \<open>m_is_monotonic\<close> and \<open>m_data_points\<close> are what the
  accessor of the matched kind (\<open>Sum()\<close>, \<open>Histogram()\<close>, ...) yields.
\<close>

record metric =
  m_type :: "32 word"
  m_name :: string
  m_description :: string
  m_unit :: string
  m_aggregation_temporality :: "32 word"
  m_is_monotonic :: bool
  m_data_points :: "data_point list"

definition MetricTypeEmpty :: "32 word" where "MetricTypeEmpty = 0"
definition MetricTypeGauge :: "32 word" where "MetricTypeGauge = 1"
definition MetricTypeSum :: "32 word" where "MetricTypeSum = 2"
definition MetricTypeHistogram :: "32 word" where "MetricTypeHistogram = 3"
definition MetricTypeExponentialHistogram :: "32 word" where "MetricTypeExponentialHistogram = 4"
definition MetricTypeSummary :: "32 word" where "MetricTypeSummary = 5"

text \<open>One row of the optimizer's output (\<open>optimizedMetrics.Metrics\<close>).\<close>

record FlatMetric =
  ResourceMetricsID :: string
  Resource :: resource
  ResourceSchemaUrl :: string
  ScopeMetricsID :: string
  Scope :: scope
  ScopeSchemaUrl :: string
  Metric :: metric

text \<open>\<open>pmetric.Metrics\<close>: resources, their scopes, their metrics.\<close>

record ScopeMetrics =
  sm_scope :: scope
  sm_schema_url :: string
  sm_metrics :: "metric list"

record ResourceMetrics =
  rm_resource :: resource
  rm_schema_url :: string
  rm_scope_metrics :: "ScopeMetrics list"

type_synonym Metrics = "ResourceMetrics list"

datatype werror =
    ErrBuilderAlreadyReleased
  | ErrColumnAppend
  | ErrBuild
  | Wrap werror

subsection \<open>The record builder and its column builders\<close>

text \<open>
  \<open>builder.RecordBuilderExt\<close>: the buffered cells of every column of \<open>MetricsSchema\<close>.
  \<open>rb_gen\<close> names the underlying Arrow record builder that currently owns the buffers;
  a column builder obtained from the record builder remembers the generation it was
  taken from, and an append through it reaches the buffers only while that generation is
  the current one (the Go field holds a pointer into the underlying builder).
  \<open>rb_release_calls\<close> counts the calls of \<open>RecordBuilderExt.Release\<close>.
\<close>

record RecordBuilderExt =
  rb_gen :: nat
  col_id :: "16 word list"
  col_resource :: "(64 word \<times> string \<times> 32 word) list"
  col_scope :: "(64 word \<times> string \<times> string \<times> 32 word) list"
  col_schema_url :: "string option list"
  col_metric_type :: "8 word list"
  col_name :: "string option list"
  col_description :: "string option list"
  col_unit :: "string option list"
  col_aggregation_temporality :: "32 word option list"
  col_is_monotonic :: "bool option list"
  rb_release_calls :: nat

record Uint16DeltaBuilder =
  u16_gen :: nat
  maxDelta :: nat

definition via :: "nat \<Rightarrow> (RecordBuilderExt \<Rightarrow> RecordBuilderExt) \<Rightarrow> RecordBuilderExt \<Rightarrow> RecordBuilderExt" where
  "via g f rbe = (if g = rb_gen rbe then f rbe else rbe)"

text \<open>
  Modelled from the spec: the attribute accumulator of the related data (its Go source is
  not among the files).  \<open>Append\<close> mints the next id, stores the attribute set under it
  and fails when the underlying column append fails; the failure condition is the
  parameter \<open>rejects\<close>.
\<close>

record AttrsAccumulator =
  acc_count :: nat
  acc_rows :: "(64 word \<times> attrs) list"

definition acc_Append :: "(attrs \<Rightarrow> bool) \<Rightarrow> AttrsAccumulator \<Rightarrow> attrs \<Rightarrow> werror + (64 word \<times> AttrsAccumulator)" where
  "acc_Append rejects acc a =
     (if rejects a then Inl ErrColumnAppend
      else Inr (of_nat (acc_count acc),
                acc\<lparr>acc_count := Suc (acc_count acc),
                    acc_rows := acc_rows acc @ [(of_nat (acc_count acc), a)]\<rparr>))"

text \<open>
  Modelled from the spec: the data-point accumulators always append, writing the parent
  row id as foreign key.  \<open>rd_release_calls\<close> counts the calls of \<open>RelatedData.Release\<close>.
\<close>

record RelatedData =
  rd_resource_acc :: AttrsAccumulator
  rd_scope_acc :: AttrsAccumulator
  rd_number_dps :: "(16 word \<times> data_point) list"
  rd_summary_dps :: "(16 word \<times> data_point) list"
  rd_histogram_dps :: "(16 word \<times> data_point) list"
  rd_ehistogram_dps :: "(16 word \<times> data_point) list"
  rd_release_calls :: nat

text \<open>What the surrounding packages decide: which values their column appends reject.\<close>

record env =
  attrs_rejects :: "attrs \<Rightarrow> bool"
  resource_rejects :: "resource \<Rightarrow> bool"
  scope_rejects :: "scope \<Rightarrow> bool"

record MetricsBuilder =
  released :: bool
  builder :: RecordBuilderExt
  rb :: nat
  scb :: nat
  sschb :: nat
  ib :: Uint16DeltaBuilder
  mtb :: nat
  nb :: nat
  db :: nat
  ub :: nat
  atb :: nat
  imb :: nat
  optimizer :: "Metrics \<Rightarrow> FlatMetric list"
  relatedData :: RelatedData


section \<open>Operations\<close>

subsection \<open>Appends through the column builders\<close>

definition ib_Append :: "16 word \<Rightarrow> MetricsBuilder \<Rightarrow> MetricsBuilder" where
  "ib_Append v b = b\<lparr>builder := via (u16_gen (ib b)) (\<lambda>r. r\<lparr>col_id := col_id r @ [v]\<rparr>) (builder b)\<rparr>"

text \<open>
  Modelled from the spec: \<open>ResourceBuilder.AppendWithID\<close> and
  \<open>ScopeBuilder.AppendWithAttrsID\<close> (package common/arrow, not among the files) write the
  given id, not the attributes, into the struct column, next to the scalar fields of the
  resource or scope.  Whether they fail is decided by \<open>env\<close>, in \<open>Append\<close>.
\<close>

definition rb_AppendWithID :: "64 word \<Rightarrow> resource \<Rightarrow> string \<Rightarrow> MetricsBuilder \<Rightarrow> MetricsBuilder" where
  "rb_AppendWithID i res url b =
     b\<lparr>builder := via (rb b)
        (\<lambda>r. r\<lparr>col_resource := col_resource r @ [(i, url, r_dropped_attributes_count res)]\<rparr>) (builder b)\<rparr>"

definition scb_AppendWithAttrsID :: "64 word \<Rightarrow> scope \<Rightarrow> MetricsBuilder \<Rightarrow> MetricsBuilder" where
  "scb_AppendWithAttrsID i sc b =
     b\<lparr>builder := via (scb b)
        (\<lambda>r. r\<lparr>col_scope := col_scope r @ [(i, s_name sc, s_version sc, s_dropped_attributes_count sc)]\<rparr>)
        (builder b)\<rparr>"

text \<open>
  Modelled from the spec: \<open>StringBuilder.AppendNonEmpty\<close> (the builder package is not among
  the files) appends a null for the empty string and the string otherwise.
\<close>

definition AppendNonEmpty :: "string \<Rightarrow> string option" where
  "AppendNonEmpty s = (if s = [] then None else Some s)"

definition sschb_AppendNonEmpty :: "string \<Rightarrow> MetricsBuilder \<Rightarrow> MetricsBuilder" where
  "sschb_AppendNonEmpty s b =
     b\<lparr>builder := via (sschb b) (\<lambda>r. r\<lparr>col_schema_url := col_schema_url r @ [AppendNonEmpty s]\<rparr>) (builder b)\<rparr>"

definition mtb_Append :: "8 word \<Rightarrow> MetricsBuilder \<Rightarrow> MetricsBuilder" where
  "mtb_Append v b =
     b\<lparr>builder := via (mtb b) (\<lambda>r. r\<lparr>col_metric_type := col_metric_type r @ [v]\<rparr>) (builder b)\<rparr>"

definition nb_AppendNonEmpty :: "string \<Rightarrow> MetricsBuilder \<Rightarrow> MetricsBuilder" where
  "nb_AppendNonEmpty s b =
     b\<lparr>builder := via (nb b) (\<lambda>r. r\<lparr>col_name := col_name r @ [AppendNonEmpty s]\<rparr>) (builder b)\<rparr>"

definition db_AppendNonEmpty :: "string \<Rightarrow> MetricsBuilder \<Rightarrow> MetricsBuilder" where
  "db_AppendNonEmpty s b =
     b\<lparr>builder := via (db b) (\<lambda>r. r\<lparr>col_description := col_description r @ [AppendNonEmpty s]\<rparr>) (builder b)\<rparr>"

definition ub_AppendNonEmpty :: "string \<Rightarrow> MetricsBuilder \<Rightarrow> MetricsBuilder" where
  "ub_AppendNonEmpty s b =
     b\<lparr>builder := via (ub b) (\<lambda>r. r\<lparr>col_unit := col_unit r @ [AppendNonEmpty s]\<rparr>) (builder b)\<rparr>"

definition atb_put :: "32 word option \<Rightarrow> MetricsBuilder \<Rightarrow> MetricsBuilder" where
  "atb_put c b =
     b\<lparr>builder := via (atb b)
        (\<lambda>r. r\<lparr>col_aggregation_temporality := col_aggregation_temporality r @ [c]\<rparr>) (builder b)\<rparr>"

definition atb_Append :: "32 word \<Rightarrow> MetricsBuilder \<Rightarrow> MetricsBuilder" where
  "atb_Append v = atb_put (Some v)"

definition atb_AppendNull :: "MetricsBuilder \<Rightarrow> MetricsBuilder" where
  "atb_AppendNull = atb_put None"

definition imb_put :: "bool option \<Rightarrow> MetricsBuilder \<Rightarrow> MetricsBuilder" where
  "imb_put c b =
     b\<lparr>builder := via (imb b) (\<lambda>r. r\<lparr>col_is_monotonic := col_is_monotonic r @ [c]\<rparr>) (builder b)\<rparr>"

definition imb_Append :: "bool \<Rightarrow> MetricsBuilder \<Rightarrow> MetricsBuilder" where
  "imb_Append v = imb_put (Some v)"

definition imb_AppendNull :: "MetricsBuilder \<Rightarrow> MetricsBuilder" where
  "imb_AppendNull = imb_put None"

subsection \<open>Appends to the data-point accumulators\<close>

definition NumberDP_Append :: "16 word \<Rightarrow> data_point \<Rightarrow> MetricsBuilder \<Rightarrow> MetricsBuilder" where
  "NumberDP_Append ID dp b =
     b\<lparr>relatedData := (relatedData b)\<lparr>rd_number_dps := rd_number_dps (relatedData b) @ [(ID, dp)]\<rparr>\<rparr>"

definition SummaryDP_Append :: "16 word \<Rightarrow> data_point list \<Rightarrow> MetricsBuilder \<Rightarrow> MetricsBuilder" where
  "SummaryDP_Append ID dps b =
     b\<lparr>relatedData := (relatedData b)\<lparr>rd_summary_dps := rd_summary_dps (relatedData b) @ map (Pair ID) dps\<rparr>\<rparr>"

definition HistogramDP_Append :: "16 word \<Rightarrow> data_point list \<Rightarrow> MetricsBuilder \<Rightarrow> MetricsBuilder" where
  "HistogramDP_Append ID dps b =
     b\<lparr>relatedData := (relatedData b)\<lparr>rd_histogram_dps := rd_histogram_dps (relatedData b) @ map (Pair ID) dps\<rparr>\<rparr>"

definition EHistogramDP_Append :: "16 word \<Rightarrow> data_point list \<Rightarrow> MetricsBuilder \<Rightarrow> MetricsBuilder" where
  "EHistogramDP_Append ID dps b =
     b\<lparr>relatedData := (relatedData b)\<lparr>rd_ehistogram_dps := rd_ehistogram_dps (relatedData b) @ map (Pair ID) dps\<rparr>\<rparr>"

subsection \<open>init, NewMetricsBuilder, Build, Release\<close>

definition Uint16DeltaBuilder_of :: "RecordBuilderExt \<Rightarrow> Uint16DeltaBuilder" where
  "Uint16DeltaBuilder_of r = \<lparr>u16_gen = rb_gen r, maxDelta = 0\<rparr>"

definition SetMaxDelta :: "nat \<Rightarrow> Uint16DeltaBuilder \<Rightarrow> Uint16DeltaBuilder" where
  "SetMaxDelta d u = u\<lparr>maxDelta := d\<rparr>"

definition init :: "MetricsBuilder \<Rightarrow> werror option \<times> MetricsBuilder" where
  "init b =
     (let g = rb_gen (builder b) in
      (None, b\<lparr>ib := SetMaxDelta 1 (Uint16DeltaBuilder_of (builder b)),
               rb := g, scb := g, sschb := g,
               mtb := g, nb := g, db := g, ub := g, atb := g, imb := g\<rparr>))"

text \<open>
  Modelled from the spec: new related data holds empty tables.  In the Go code a failure
  of \<open>NewRelatedData\<close> panics inside \<open>NewMetricsBuilder\<close>; the constructor returns an
  error only when \<open>init\<close> does.  The optimizer is the same in both branches on
  \<open>SchemaStatsEnabled\<close>, and the analyzer is diagnostic only.
\<close>

definition NewAttrsAccumulator :: AttrsAccumulator where
  "NewAttrsAccumulator = \<lparr>acc_count = 0, acc_rows = []\<rparr>"

definition NewRelatedData :: RelatedData where
  "NewRelatedData = \<lparr>rd_resource_acc = NewAttrsAccumulator, rd_scope_acc = NewAttrsAccumulator,
     rd_number_dps = [], rd_summary_dps = [], rd_histogram_dps = [], rd_ehistogram_dps = [],
     rd_release_calls = 0\<rparr>"

definition NewMetricsBuilder :: "RecordBuilderExt \<Rightarrow> (Metrics \<Rightarrow> FlatMetric list) \<Rightarrow> werror + MetricsBuilder" where
  "NewMetricsBuilder rBuilder opt =
     (let b = \<lparr>released = False, builder = rBuilder,
                rb = 0, scb = 0, sschb = 0, ib = \<lparr>u16_gen = 0, maxDelta = 0\<rparr>,
                mtb = 0, nb = 0, db = 0, ub = 0, atb = 0, imb = 0,
                optimizer = opt, relatedData = NewRelatedData\<rparr>
      in case init b of
           (Some err, _) \<Rightarrow> Inl (Wrap err)
         | (None, b') \<Rightarrow> Inr b')"

text \<open>
  \<open>Build\<close>.  \<open>RecordBuilderExt.NewRecord\<close> is not among the files: it is the parameter
  \<open>NewRecord\<close>, which returns the record or an error together with the record builder as
  it leaves it (possibly with a new underlying builder).
\<close>

definition Build :: "(RecordBuilderExt \<Rightarrow> (werror + 'r) \<times> RecordBuilderExt) \<Rightarrow> MetricsBuilder
    \<Rightarrow> (werror + 'r) \<times> MetricsBuilder" where
  "Build NewRecord b =
     (if released b then (Inl (Wrap ErrBuilderAlreadyReleased), b)
      else case NewRecord (builder b) of
             (Inr record, r') \<Rightarrow> (Inr record, b\<lparr>builder := r'\<rparr>)
           | (Inl err, r') \<Rightarrow>
               (case init (b\<lparr>builder := r'\<rparr>) of
                  (Some initErr, b') \<Rightarrow> (Inl (Wrap initErr), b')
                | (None, b') \<Rightarrow> (Inl err, b')))"

definition Release :: "MetricsBuilder \<Rightarrow> MetricsBuilder" where
  "Release b =
     (if \<not> released b then
        b\<lparr>builder := (builder b)\<lparr>rb_release_calls := Suc (rb_release_calls (builder b))\<rparr>,
          released := True,
          relatedData := (relatedData b)\<lparr>rd_release_calls := Suc (rd_release_calls (relatedData b))\<rparr>\<rparr>
      else b)"

subsection \<open>Append\<close>

record locals =
  metricID :: "16 word"
  resMetricsID :: string
  scopeMetricsID :: string
  resID :: "64 word"
  scopeID :: "64 word"

definition locals0 :: locals where
  "locals0 = \<lparr>metricID = 0, resMetricsID = [], scopeMetricsID = [], resID = 0, scopeID = 0\<rparr>"

definition resource_part :: "env \<Rightarrow> FlatMetric \<Rightarrow> locals \<Rightarrow> MetricsBuilder
    \<Rightarrow> werror option \<times> locals \<times> MetricsBuilder" where
  "resource_part e metric l b =
     (let minted =
        (if resMetricsID l \<noteq> ResourceMetricsID metric then
           (case acc_Append (attrs_rejects e) (rd_resource_acc (relatedData b)) (r_attributes (Resource metric)) of
              Inl err \<Rightarrow> (Some (Wrap err), l\<lparr>resMetricsID := ResourceMetricsID metric\<rparr>, b)
            | Inr (i, acc') \<Rightarrow>
                (None, l\<lparr>resMetricsID := ResourceMetricsID metric, resID := i\<rparr>,
                 b\<lparr>relatedData := (relatedData b)\<lparr>rd_resource_acc := acc'\<rparr>\<rparr>))
         else (None, l, b))
      in case minted of
           (Some err, l', b') \<Rightarrow> (Some err, l', b')
         | (None, l', b') \<Rightarrow>
             (if resource_rejects e (Resource metric) then (Some (Wrap ErrColumnAppend), l', b')
              else (None, l', rb_AppendWithID (resID l') (Resource metric) (ResourceSchemaUrl metric) b')))"

definition scope_part :: "env \<Rightarrow> FlatMetric \<Rightarrow> locals \<Rightarrow> MetricsBuilder
    \<Rightarrow> werror option \<times> locals \<times> MetricsBuilder" where
  "scope_part e metric l b =
     (let minted =
        (if scopeMetricsID l \<noteq> ScopeMetricsID metric then
           (case acc_Append (attrs_rejects e) (rd_scope_acc (relatedData b)) (s_attributes (Scope metric)) of
              Inl err \<Rightarrow> (Some (Wrap err), l\<lparr>scopeMetricsID := ScopeMetricsID metric\<rparr>, b)
            | Inr (i, acc') \<Rightarrow>
                (None, l\<lparr>scopeMetricsID := ScopeMetricsID metric, scopeID := i\<rparr>,
                 b\<lparr>relatedData := (relatedData b)\<lparr>rd_scope_acc := acc'\<rparr>\<rparr>))
         else (None, l, b))
      in case minted of
           (Some err, l', b') \<Rightarrow> (Some err, l', b')
         | (None, l', b') \<Rightarrow>
             (if scope_rejects e (Scope metric) then (Some (Wrap ErrColumnAppend), l', b')
              else (None, l', scb_AppendWithAttrsID (scopeID l') (Scope metric) b')))"

definition scalar_part :: "FlatMetric \<Rightarrow> MetricsBuilder \<Rightarrow> MetricsBuilder" where
  "scalar_part metric b =
     ub_AppendNonEmpty (m_unit (Metric metric))
       (db_AppendNonEmpty (m_description (Metric metric))
         (nb_AppendNonEmpty (m_name (Metric metric))
           (mtb_Append (ucast (m_type (Metric metric)))
             (sschb_AppendNonEmpty (ScopeSchemaUrl metric) b))))"

definition kind_part :: "16 word \<Rightarrow> metric \<Rightarrow> MetricsBuilder \<Rightarrow> MetricsBuilder" where
  "kind_part ID m b =
     (if m_type m = MetricTypeGauge then
        fold (NumberDP_Append ID) (m_data_points m) (imb_AppendNull (atb_AppendNull b))
      else if m_type m = MetricTypeSum then
        fold (NumberDP_Append ID) (m_data_points m)
          (imb_Append (m_is_monotonic m) (atb_Append (m_aggregation_temporality m) b))
      else if m_type m = MetricTypeSummary then
        SummaryDP_Append ID (m_data_points m) (imb_AppendNull (atb_AppendNull b))
      else if m_type m = MetricTypeHistogram then
        HistogramDP_Append ID (m_data_points m)
          (imb_AppendNull (atb_Append (m_aggregation_temporality m) b))
      else if m_type m = MetricTypeExponentialHistogram then
        EHistogramDP_Append ID (m_data_points m)
          (imb_AppendNull (atb_Append (m_aggregation_temporality m) b))
      else if m_type m = MetricTypeEmpty then
        imb_AppendNull (atb_AppendNull b)
      else b)"

definition append_metric :: "env \<Rightarrow> FlatMetric \<Rightarrow> locals \<Rightarrow> MetricsBuilder
    \<Rightarrow> werror option \<times> locals \<times> MetricsBuilder" where
  "append_metric e metric l b =
     (let ID = metricID l;
          b1 = ib_Append ID b;
          l1 = l\<lparr>metricID := metricID l + 1\<rparr>
      in case resource_part e metric l1 b1 of
           (Some err, l2, b2) \<Rightarrow> (Some err, l2, b2)
         | (None, l2, b2) \<Rightarrow>
             (case scope_part e metric l2 b2 of
                (Some err, l3, b3) \<Rightarrow> (Some err, l3, b3)
              | (None, l3, b3) \<Rightarrow> (None, l3, kind_part ID (Metric metric) (scalar_part metric b3))))"

fun append_loop :: "env \<Rightarrow> FlatMetric list \<Rightarrow> locals \<Rightarrow> MetricsBuilder \<Rightarrow> werror option \<times> MetricsBuilder" where
  "append_loop e [] l b = (None, b)"
| "append_loop e (metric # rest) l b =
     (case append_metric e metric l b of
        (Some err, _, b') \<Rightarrow> (Some err, b')
      | (None, l', b') \<Rightarrow> append_loop e rest l' b')"

text \<open>
  \<open>Append\<close>.  The analyzer only collects statistics and \<open>Reserve\<close> only pre-allocates;
  neither changes what is modelled here.
\<close>

definition Append :: "env \<Rightarrow> MetricsBuilder \<Rightarrow> Metrics \<Rightarrow> werror option \<times> MetricsBuilder" where
  "Append e b metrics =
     (if released b then (Some (Wrap ErrBuilderAlreadyReleased), b)
      else append_loop e (optimizer b metrics) locals0 b)"

section \<open>Derived notions used in the statements\<close>

text \<open>
  \<open>bound b\<close>: the column builders of \<open>b\<close> are the ones \<open>init\<close> takes from the current
  record builder, with the maximum id delta \<open>init\<close> sets.
\<close>
definition bound :: "MetricsBuilder \<Rightarrow> bool" where
  "bound b \<longleftrightarrow>
     u16_gen (ib b) = rb_gen (builder b) \<and> maxDelta (ib b) = 1 \<and> rb b = rb_gen (builder b) \<and> scb b = rb_gen (builder b) \<and>
     sschb b = rb_gen (builder b) \<and> mtb b = rb_gen (builder b) \<and> nb b = rb_gen (builder b) \<and>
     db b = rb_gen (builder b) \<and> ub b = rb_gen (builder b) \<and> atb b = rb_gen (builder b) \<and>
     imb b = rb_gen (builder b)"

text \<open>
  What one pass through the switch on \<open>metric.Metric.Type()\<close> appends to the
  aggregation-temporality and to the is-monotonic column.
\<close>
definition atb_cells :: "metric \<Rightarrow> 32 word option list" where
  "atb_cells m =
     (if m_type m = MetricTypeGauge \<or> m_type m = MetricTypeSummary \<or> m_type m = MetricTypeEmpty then [None]
      else if m_type m = MetricTypeSum \<or> m_type m = MetricTypeHistogram
              \<or> m_type m = MetricTypeExponentialHistogram then [Some (m_aggregation_temporality m)]
      else [])"

definition imb_cells :: "metric \<Rightarrow> bool option list" where
  "imb_cells m =
     (if m_type m = MetricTypeSum then [Some (m_is_monotonic m)]
      else if m_type m = MetricTypeGauge \<or> m_type m = MetricTypeSummary \<or> m_type m = MetricTypeEmpty
              \<or> m_type m = MetricTypeHistogram \<or> m_type m = MetricTypeExponentialHistogram then [None]
      else [])"

text \<open>The cells one loop iteration that reaches its end appends, column by column.\<close>
definition row_written :: "FlatMetric \<Rightarrow> 16 word \<Rightarrow> 64 word \<Rightarrow> 64 word \<Rightarrow> RecordBuilderExt \<Rightarrow> RecordBuilderExt" where
  "row_written metric ID rid sid r =
     r\<lparr>col_id := col_id r @ [ID],
       col_resource := col_resource r @ [(rid, ResourceSchemaUrl metric, r_dropped_attributes_count (Resource metric))],
       col_scope := col_scope r @ [(sid, s_name (Scope metric), s_version (Scope metric),
                                    s_dropped_attributes_count (Scope metric))],
       col_schema_url := col_schema_url r @ [AppendNonEmpty (ScopeSchemaUrl metric)],
       col_metric_type := col_metric_type r @ [ucast (m_type (Metric metric))],
       col_name := col_name r @ [AppendNonEmpty (m_name (Metric metric))],
       col_description := col_description r @ [AppendNonEmpty (m_description (Metric metric))],
       col_unit := col_unit r @ [AppendNonEmpty (m_unit (Metric metric))],
       col_aggregation_temporality := col_aggregation_temporality r @ atb_cells (Metric metric),
       col_is_monotonic := col_is_monotonic r @ imb_cells (Metric metric)\<rparr>"

text \<open>\<open>frame b b'\<close>: \<open>b'\<close> differs from \<open>b\<close> in the record builder and the related data only.\<close>
definition frame :: "MetricsBuilder \<Rightarrow> MetricsBuilder \<Rightarrow> bool" where
  "frame b b' \<longleftrightarrow>
     released b' = released b \<and> ib b' = ib b \<and> rb b' = rb b \<and> scb b' = scb b \<and> sschb b' = sschb b \<and>
     mtb b' = mtb b \<and> nb b' = nb b \<and> db b' = db b \<and> ub b' = ub b \<and> atb b' = atb b \<and> imb b' = imb b \<and>
     optimizer b' = optimizer b"

text \<open>Concrete builders and batches on which the statements below are instantiated.\<close>
definition empty_RecordBuilderExt :: RecordBuilderExt where
  "empty_RecordBuilderExt = \<lparr>rb_gen = 0, col_id = [], col_resource = [], col_scope = [],
     col_schema_url = [], col_metric_type = [], col_name = [], col_description = [], col_unit = [],
     col_aggregation_temporality = [], col_is_monotonic = [], rb_release_calls = 0\<rparr>"

definition accepting :: env where
  "accepting = \<lparr>attrs_rejects = (\<lambda>_. False), resource_rejects = (\<lambda>_. False), scope_rejects = (\<lambda>_. False)\<rparr>"

definition example_builder :: "FlatMetric list \<Rightarrow> MetricsBuilder" where
  "example_builder rows = projr (NewMetricsBuilder empty_RecordBuilderExt (\<lambda>_. rows))"

definition example_row :: "string \<Rightarrow> string \<Rightarrow> metric \<Rightarrow> FlatMetric" where
  "example_row rid sid m =
     \<lparr>ResourceMetricsID = rid,
      Resource = \<lparr>r_attributes = [(''env'', ''prod'')], r_dropped_attributes_count = 0\<rparr>,
      ResourceSchemaUrl = [],
      ScopeMetricsID = sid,
      Scope = \<lparr>s_name = ''lib'', s_version = ''1'', s_attributes = [], s_dropped_attributes_count = 0\<rparr>,
      ScopeSchemaUrl = [],
      Metric = m\<rparr>"

definition example_metric :: "32 word \<Rightarrow> string \<Rightarrow> metric" where
  "example_metric t n = \<lparr>m_type = t, m_name = n, m_description = [], m_unit = ''ms'',
     m_aggregation_temporality = 2, m_is_monotonic = True, m_data_points = [DataPoint 7]\<rparr>"

definition scenario_rows :: "FlatMetric list" where
  "scenario_rows = [example_row ''r'' ''s'' (example_metric MetricTypeGauge ''a''),
                    example_row ''r'' ''s'' (example_metric MetricTypeSum ''b''),
                    example_row ''r'' ''s'' (example_metric 6 ''c'')]"

text \<open>\<open>accepts e r\<close>: no append made for row \<open>r\<close> is rejected.\<close>
definition accepts :: "env \<Rightarrow> FlatMetric \<Rightarrow> bool" where
  "accepts e r \<longleftrightarrow> \<not> attrs_rejects e (r_attributes (Resource r)) \<and> \<not> resource_rejects e (Resource r) \<and>
     \<not> attrs_rejects e (s_attributes (Scope r)) \<and> \<not> scope_rejects e (Scope r)"

text \<open>
  The six kinds with a branch of their own in the switch, and the cells the specification
  gives each of them in the two kind-specific columns.
\<close>
definition handled_kind :: "32 word \<Rightarrow> bool" where
  "handled_kind t \<longleftrightarrow> t = MetricTypeGauge \<or> t = MetricTypeSum \<or> t = MetricTypeSummary \<or>
     t = MetricTypeHistogram \<or> t = MetricTypeExponentialHistogram \<or> t = MetricTypeEmpty"

definition claimed_temporality :: "metric \<Rightarrow> 32 word option" where
  "claimed_temporality m =
     (if m_type m = MetricTypeGauge \<or> m_type m = MetricTypeSummary \<or> m_type m = MetricTypeEmpty then None
      else Some (m_aggregation_temporality m))"

definition claimed_monotonic :: "metric \<Rightarrow> bool option" where
  "claimed_monotonic m = (if m_type m = MetricTypeSum then Some (m_is_monotonic m) else None)"

text \<open>A \<open>NewRecord\<close> that fails and replaces the underlying builder, as a schema update does.\<close>
definition failing_NewRecord :: "RecordBuilderExt \<Rightarrow> (werror + unit) \<times> RecordBuilderExt" where
  "failing_NewRecord r = (Inl ErrBuild, empty_RecordBuilderExt\<lparr>rb_gen := Suc (rb_gen r)\<rparr>)"

definition two_rows :: "FlatMetric list" where
  "two_rows = [example_row ''r'' ''s'' (example_metric MetricTypeGauge ''a''),
               example_row ''r'' ''s'' (example_metric MetricTypeSum [])]"

definition wide_rows :: "FlatMetric list" where
  "wide_rows = [example_row ''r'' ''s'' (example_metric 2 ''a''),
                example_row ''r'' ''s'' (example_metric 258 ''b'')]"

definition many_rows :: "FlatMetric list" where
  "many_rows = replicate 65537 (example_row ''r'' ''s'' (example_metric MetricTypeGauge ''a''))"

text \<open>
  The ids a run of rows is written with, from their grouping identifiers alone: \<open>prev\<close> is
  the previous row's identifier, \<open>cur\<close> the current id and \<open>n\<close> the next id the
  accumulator mints.  \<open>boundaries\<close> counts the rows whose identifier differs from the
  previous one.
\<close>
fun group_ids :: "string \<Rightarrow> 64 word \<Rightarrow> nat \<Rightarrow> string list \<Rightarrow> 64 word list" where
  "group_ids prev cur n [] = []"
| "group_ids prev cur n (g # gs) =
     (if prev \<noteq> g then of_nat n # group_ids g (of_nat n) (Suc n) gs
      else cur # group_ids prev cur n gs)"


text \<open>
  The content of a row's resource and of its scope: the value and its schema URL.
\<close>
definition resource_content :: "FlatMetric \<Rightarrow> resource \<times> string" where
  "resource_content r = (Resource r, ResourceSchemaUrl r)"

definition scope_content :: "FlatMetric \<Rightarrow> scope \<times> string" where
  "scope_content r = (Scope r, ScopeSchemaUrl r)"

text \<open>
  Modelled from the spec: the optimizer (\<open>MetricsOptimizer\<close>, not among the files) tags
  every row with a grouping identifier of its resource and one of its scope, and the
  builder detects a change of resource or scope by comparing the identifier with the
  previous row's.  An identifier stands for the content: two rows carry the same
  identifier exactly when their resource (scope) content is the same.  The loop's
  previous identifier starts as the empty string, which stands for no row, so no
  identifier is the empty string.
\<close>
definition keyed :: "FlatMetric list \<Rightarrow> bool" where
  "keyed rows \<longleftrightarrow>
     (\<forall>r \<in> set rows. ResourceMetricsID r \<noteq> [] \<and> ScopeMetricsID r \<noteq> []) \<and>
     (\<forall>r \<in> set rows. \<forall>r' \<in> set rows.
        (ResourceMetricsID r = ResourceMetricsID r') = (resource_content r = resource_content r') \<and>
        (ScopeMetricsID r = ScopeMetricsID r') = (scope_content r = scope_content r'))"


text \<open>
  The entries a run of rows adds to an attribute accumulator, from the rows' grouping
  identifiers and attribute sets, and the entries a call of \<open>Append\<close> added to the
  resource and to the scope accumulator.
\<close>
fun minted :: "string \<Rightarrow> nat \<Rightarrow> (string \<times> attrs) list \<Rightarrow> (64 word \<times> attrs) list" where
  "minted prev n [] = []"
| "minted prev n ((g, a) # xs) =
     (if prev \<noteq> g then (of_nat n, a) # minted g (Suc n) xs else minted prev n xs)"






text \<open>
  The data-point rows a run of metrics adds to the table of the kinds \<open>P\<close>, each under the
  id of its metric, and the four data-point tables of the related data.
\<close>
fun dp_rows :: "(32 word \<Rightarrow> bool) \<Rightarrow> 16 word \<Rightarrow> FlatMetric list \<Rightarrow> (16 word \<times> data_point) list" where
  "dp_rows P ID [] = []"
| "dp_rows P ID (r # rs) =
     (if P (m_type (Metric r)) then map (Pair ID) (m_data_points (Metric r)) else []) @ dp_rows P (ID + 1) rs"

definition dp_tables :: "RelatedData \<Rightarrow>
    (16 word \<times> data_point) list \<times> (16 word \<times> data_point) list \<times>
    (16 word \<times> data_point) list \<times> (16 word \<times> data_point) list" where
  "dp_tables d = (rd_number_dps d, rd_summary_dps d, rd_histogram_dps d, rd_ehistogram_dps d)"

section \<open>Properties\<close>

lemmas col_ops = ib_Append_def rb_AppendWithID_def scb_AppendWithAttrsID_def sschb_AppendNonEmpty_def
  mtb_Append_def nb_AppendNonEmpty_def db_AppendNonEmpty_def ub_AppendNonEmpty_def atb_put_def
  atb_Append_def atb_AppendNull_def imb_put_def imb_Append_def imb_AppendNull_def

lemma fold_NumberDP:
  "fold (NumberDP_Append ID) dps b =
     b\<lparr>relatedData := (relatedData b)\<lparr>rd_number_dps := rd_number_dps (relatedData b) @ map (Pair ID) dps\<rparr>\<rparr>"
  by (induction dps arbitrary: b) (simp_all add: NumberDP_Append_def)

lemma Release_idem: "Release (Release b) = Release b \<and> (released b \<longrightarrow> Release b = b)"
  by (simp add: Release_def)

lemma after_release: "released b \<Longrightarrow> Append e b m = (Some (Wrap ErrBuilderAlreadyReleased), b) \<and> Build nr b = (Inl (Wrap ErrBuilderAlreadyReleased), b)"
  by (simp add: Append_def Build_def)

lemma bound_init: "bound (snd (init b))"
  by (simp add: init_def bound_def Let_def SetMaxDelta_def Uint16DeltaBuilder_of_def)

lemma build_fail:
  assumes "\<not> released b" "NewRecord (builder b) = (Inl err, r')"
  shows "Build NewRecord b = (Inl err, snd (init (b\<lparr>builder := r'\<rparr>)))"
  using assms by (simp add: Build_def init_def Let_def)

lemmas MetricType_defs = MetricTypeEmpty_def MetricTypeGauge_def MetricTypeSum_def
  MetricTypeHistogram_def MetricTypeExponentialHistogram_def MetricTypeSummary_def

lemmas dp_ops = fold_NumberDP SummaryDP_Append_def HistogramDP_Append_def EHistogramDP_Append_def

lemma kind_part_builder:
  "bound b \<Longrightarrow> builder (kind_part ID m b) =
     (builder b)\<lparr>col_aggregation_temporality := col_aggregation_temporality (builder b) @ atb_cells m,
                col_is_monotonic := col_is_monotonic (builder b) @ imb_cells m\<rparr>"
  by (simp add: kind_part_def bound_def col_ops via_def dp_ops atb_cells_def imb_cells_def MetricType_defs)

lemma kind_part_frame:
  "kind_part ID m b = b\<lparr>builder := builder (kind_part ID m b), relatedData := relatedData (kind_part ID m b)\<rparr>"
  by (simp add: kind_part_def col_ops dp_ops)

lemma scalar_part_eq:
  "bound b \<Longrightarrow> scalar_part metric b =
     b\<lparr>builder := (builder b)\<lparr>
          col_schema_url := col_schema_url (builder b) @ [AppendNonEmpty (ScopeSchemaUrl metric)],
          col_metric_type := col_metric_type (builder b) @ [ucast (m_type (Metric metric))],
          col_name := col_name (builder b) @ [AppendNonEmpty (m_name (Metric metric))],
          col_description := col_description (builder b) @ [AppendNonEmpty (m_description (Metric metric))],
          col_unit := col_unit (builder b) @ [AppendNonEmpty (m_unit (Metric metric))]\<rparr>\<rparr>"
  by (simp add: scalar_part_def bound_def col_ops via_def)

lemma resource_part_eq:
  assumes "bound b" "resource_part e metric l b = (None, l', b')"
  shows "b' = b\<lparr>builder := (builder b)\<lparr>col_resource := col_resource (builder b) @
                  [(resID l', ResourceSchemaUrl metric, r_dropped_attributes_count (Resource metric))]\<rparr>,
               relatedData := relatedData b'\<rparr>"
  using assms
  by (auto simp: resource_part_def bound_def col_ops via_def acc_Append_def Let_def split: if_splits)

lemma scope_part_eq:
  assumes "bound b" "scope_part e metric l b = (None, l', b')"
  shows "b' = b\<lparr>builder := (builder b)\<lparr>col_scope := col_scope (builder b) @
                  [(scopeID l', s_name (Scope metric), s_version (Scope metric),
                    s_dropped_attributes_count (Scope metric))]\<rparr>,
               relatedData := relatedData b'\<rparr>"
  using assms
  by (auto simp: scope_part_def bound_def col_ops via_def acc_Append_def Let_def split: if_splits)

lemma ib_Append_eq:
  "bound b \<Longrightarrow> ib_Append v b = b\<lparr>builder := (builder b)\<lparr>col_id := col_id (builder b) @ [v]\<rparr>\<rparr>"
  by (simp add: bound_def col_ops via_def)

lemma bound_builder_upd:
  "rb_gen r = rb_gen (builder b) \<Longrightarrow> bound (b\<lparr>builder := r, relatedData := d\<rparr>) = bound b"
  by (simp add: bound_def)

lemma resource_part_locals:
  assumes "resource_part e metric l b = (None, l', b')"
  shows "l' = l\<lparr>resMetricsID := ResourceMetricsID metric,
               resID := (if resMetricsID l \<noteq> ResourceMetricsID metric
                         then of_nat (acc_count (rd_resource_acc (relatedData b))) else resID l)\<rparr>"
    and "acc_count (rd_resource_acc (relatedData b')) =
           (if resMetricsID l \<noteq> ResourceMetricsID metric
            then Suc (acc_count (rd_resource_acc (relatedData b)))
            else acc_count (rd_resource_acc (relatedData b)))"
    and "rd_scope_acc (relatedData b') = rd_scope_acc (relatedData b)"
  using assms
  by (auto simp: resource_part_def col_ops acc_Append_def Let_def split: if_splits)

lemma scope_part_locals:
  assumes "scope_part e metric l b = (None, l', b')"
  shows "l' = l\<lparr>scopeMetricsID := ScopeMetricsID metric,
               scopeID := (if scopeMetricsID l \<noteq> ScopeMetricsID metric
                         then of_nat (acc_count (rd_scope_acc (relatedData b))) else scopeID l)\<rparr>"
    and "acc_count (rd_scope_acc (relatedData b')) =
           (if scopeMetricsID l \<noteq> ScopeMetricsID metric
            then Suc (acc_count (rd_scope_acc (relatedData b)))
            else acc_count (rd_scope_acc (relatedData b)))"
    and "rd_resource_acc (relatedData b') = rd_resource_acc (relatedData b)"
  using assms
  by (auto simp: scope_part_def col_ops acc_Append_def Let_def split: if_splits)

lemma kind_part_accs:
  "rd_resource_acc (relatedData (kind_part ID m b)) = rd_resource_acc (relatedData b)"
  "rd_scope_acc (relatedData (kind_part ID m b)) = rd_scope_acc (relatedData b)"
  by (simp_all add: kind_part_def col_ops dp_ops)

lemma scalar_part_related: "relatedData (scalar_part metric b) = relatedData b"
  by (simp add: scalar_part_def col_ops)

lemma append_metric_parts:
  assumes "append_metric e metric l b = (None, l', b')"
  obtains l2 b2 b3 where
    "resource_part e metric (l\<lparr>metricID := metricID l + 1\<rparr>) (ib_Append (metricID l) b) = (None, l2, b2)"
    "scope_part e metric l2 b2 = (None, l', b3)"
    "b' = kind_part (metricID l) (Metric metric) (scalar_part metric b3)"
  using assms
  by (auto simp: append_metric_def Let_def split: prod.splits option.splits)

lemma frame_eq: "frame b b' \<Longrightarrow> b' = b\<lparr>builder := builder b', relatedData := relatedData b'\<rparr>"
  by (cases b; cases b') (simp add: frame_def)

lemma frame_trans: "frame a b \<Longrightarrow> frame b c \<Longrightarrow> frame a c"
  by (simp add: frame_def)

lemma frame_ib_Append: "frame b (ib_Append v b)"
  by (simp add: frame_def col_ops)

lemma frame_resource_part: "resource_part e metric l b = (x, l', b') \<Longrightarrow> frame b b'"
  by (auto simp: frame_def resource_part_def col_ops acc_Append_def Let_def split: if_splits)

lemma frame_scope_part: "scope_part e metric l b = (x, l', b') \<Longrightarrow> frame b b'"
  by (auto simp: frame_def scope_part_def col_ops acc_Append_def Let_def split: if_splits)

lemma frame_scalar_part: "frame b (scalar_part metric b)"
  by (simp add: frame_def scalar_part_def col_ops)

lemma frame_kind_part: "frame b (kind_part ID m b)"
  by (simp add: frame_def kind_part_def col_ops dp_ops)

lemma gen_via: "(\<And>r. rb_gen (f r) = rb_gen r) \<Longrightarrow> rb_gen (via g f r) = rb_gen r"
  by (simp add: via_def)

lemma gen_ib_Append: "rb_gen (builder (ib_Append v b)) = rb_gen (builder b)"
  by (simp add: col_ops gen_via)

lemma gen_resource_part: "resource_part e metric l b = (x, l', b') \<Longrightarrow> rb_gen (builder b') = rb_gen (builder b)"
  by (auto simp: resource_part_def col_ops gen_via acc_Append_def Let_def split: if_splits)

lemma gen_scope_part: "scope_part e metric l b = (x, l', b') \<Longrightarrow> rb_gen (builder b') = rb_gen (builder b)"
  by (auto simp: scope_part_def col_ops gen_via acc_Append_def Let_def split: if_splits)

lemma gen_scalar_part: "rb_gen (builder (scalar_part metric b)) = rb_gen (builder b)"
  by (simp add: scalar_part_def col_ops gen_via)

lemma gen_kind_part: "rb_gen (builder (kind_part ID m b)) = rb_gen (builder b)"
  by (simp add: kind_part_def col_ops dp_ops gen_via)

lemma bound_frame: "frame b b' \<Longrightarrow> rb_gen (builder b') = rb_gen (builder b) \<Longrightarrow> bound b' = bound b"
  by (simp add: frame_def bound_def)

lemma append_metric_eq:
  assumes bd: "bound b" and ok: "append_metric e metric l b = (None, l', b')"
  shows "b' = b\<lparr>builder := row_written metric (metricID l) (resID l') (scopeID l') (builder b),
               relatedData := relatedData b'\<rparr>"
proof -
  from ok obtain l2 b2 b3 where
    r: "resource_part e metric (l\<lparr>metricID := metricID l + 1\<rparr>) (ib_Append (metricID l) b) = (None, l2, b2)"
    and s: "scope_part e metric l2 b2 = (None, l', b3)"
    and k: "b' = kind_part (metricID l) (Metric metric) (scalar_part metric b3)"
    by (rule append_metric_parts)
  let ?b1 = "ib_Append (metricID l) b"
  let ?b4 = "scalar_part metric b3"
  have bd1: "bound ?b1" using bd bound_frame [OF frame_ib_Append gen_ib_Append] by simp
  have bd2: "bound b2" using bd1 bound_frame [OF frame_resource_part [OF r] gen_resource_part [OF r]] by simp
  have bd3: "bound b3" using bd2 bound_frame [OF frame_scope_part [OF s] gen_scope_part [OF s]] by simp
  have bd4: "bound ?b4" using bd3 bound_frame [OF frame_scalar_part gen_scalar_part] by simp
  have rid: "resID l' = resID l2" using scope_part_locals(1) [OF s] by simp
  have B1: "builder ?b1 = (builder b)\<lparr>col_id := col_id (builder b) @ [metricID l]\<rparr>"
    by (simp add: ib_Append_eq [OF bd])
  have B2: "builder b2 = (builder ?b1)\<lparr>col_resource := col_resource (builder ?b1) @
                  [(resID l2, ResourceSchemaUrl metric, r_dropped_attributes_count (Resource metric))]\<rparr>"
    by (subst resource_part_eq [OF bd1 r]) simp
  have B3: "builder b3 = (builder b2)\<lparr>col_scope := col_scope (builder b2) @
                  [(scopeID l', s_name (Scope metric), s_version (Scope metric),
                    s_dropped_attributes_count (Scope metric))]\<rparr>"
    by (subst scope_part_eq [OF bd2 s]) simp
  have B4: "builder ?b4 = (builder b3)\<lparr>
          col_schema_url := col_schema_url (builder b3) @ [AppendNonEmpty (ScopeSchemaUrl metric)],
          col_metric_type := col_metric_type (builder b3) @ [ucast (m_type (Metric metric))],
          col_name := col_name (builder b3) @ [AppendNonEmpty (m_name (Metric metric))],
          col_description := col_description (builder b3) @ [AppendNonEmpty (m_description (Metric metric))],
          col_unit := col_unit (builder b3) @ [AppendNonEmpty (m_unit (Metric metric))]\<rparr>"
    by (simp add: scalar_part_eq [OF bd3])
  have B: "builder b' = row_written metric (metricID l) (resID l') (scopeID l') (builder b)"
    unfolding k kind_part_builder [OF bd4] by (simp add: B4 B3 B2 B1 rid row_written_def)
  have "frame b b3"
    by (rule frame_trans [OF frame_trans [OF frame_ib_Append frame_resource_part [OF r]]
          frame_scope_part [OF s]])
  then have "frame b b'"
    unfolding k by (rule frame_trans [OF _ frame_trans [OF frame_scalar_part frame_kind_part]])
  from frame_eq [OF this] B show ?thesis by simp
qed

lemma append_metric_locals:
  assumes ok: "append_metric e metric l b = (None, l', b')"
  shows "metricID l' = metricID l + 1"
    and "resMetricsID l' = ResourceMetricsID metric"
    and "scopeMetricsID l' = ScopeMetricsID metric"
    and "resID l' = (if resMetricsID l \<noteq> ResourceMetricsID metric
                     then of_nat (acc_count (rd_resource_acc (relatedData b))) else resID l)"
    and "scopeID l' = (if scopeMetricsID l \<noteq> ScopeMetricsID metric
                     then of_nat (acc_count (rd_scope_acc (relatedData b))) else scopeID l)"
    and "acc_count (rd_resource_acc (relatedData b')) =
           (if resMetricsID l \<noteq> ResourceMetricsID metric
            then Suc (acc_count (rd_resource_acc (relatedData b)))
            else acc_count (rd_resource_acc (relatedData b)))"
    and "acc_count (rd_scope_acc (relatedData b')) =
           (if scopeMetricsID l \<noteq> ScopeMetricsID metric
            then Suc (acc_count (rd_scope_acc (relatedData b)))
            else acc_count (rd_scope_acc (relatedData b)))"
proof -
  from ok obtain l2 b2 b3 where
    r: "resource_part e metric (l\<lparr>metricID := metricID l + 1\<rparr>) (ib_Append (metricID l) b) = (None, l2, b2)"
    and s: "scope_part e metric l2 b2 = (None, l', b3)"
    and k: "b' = kind_part (metricID l) (Metric metric) (scalar_part metric b3)"
    by (rule append_metric_parts)
  have rd1: "relatedData (ib_Append (metricID l) b) = relatedData b" by (simp add: col_ops)
  note R = resource_part_locals [OF r, unfolded rd1]
  note S = scope_part_locals [OF s]
  show "metricID l' = metricID l + 1" by (subst S(1), subst R(1)) simp
  show "resMetricsID l' = ResourceMetricsID metric" by (subst S(1), subst R(1)) simp
  show "scopeMetricsID l' = ScopeMetricsID metric" by (subst S(1)) simp
  show "resID l' = (if resMetricsID l \<noteq> ResourceMetricsID metric
                     then of_nat (acc_count (rd_resource_acc (relatedData b))) else resID l)"
    by (subst S(1), subst R(1)) simp
  have sm: "scopeMetricsID l2 = scopeMetricsID l" "scopeID l2 = scopeID l" by (subst R(1), simp)+
  show "scopeID l' = (if scopeMetricsID l \<noteq> ScopeMetricsID metric
                     then of_nat (acc_count (rd_scope_acc (relatedData b))) else scopeID l)"
    by (subst S(1)) (simp add: sm R(3) rd1)
  show "acc_count (rd_resource_acc (relatedData b')) =
           (if resMetricsID l \<noteq> ResourceMetricsID metric
            then Suc (acc_count (rd_resource_acc (relatedData b)))
            else acc_count (rd_resource_acc (relatedData b)))"
    unfolding k by (simp add: kind_part_accs scalar_part_related S(3) R(2))
  show "acc_count (rd_scope_acc (relatedData b')) =
           (if scopeMetricsID l \<noteq> ScopeMetricsID metric
            then Suc (acc_count (rd_scope_acc (relatedData b)))
            else acc_count (rd_scope_acc (relatedData b)))"
    unfolding k by (simp add: kind_part_accs scalar_part_related S(2) sm R(3) rd1)
qed

lemma append_metric_bound:
  assumes "bound b" "append_metric e metric l b = (None, l', b')"
  shows "bound b'"
  using assms(1) by (subst append_metric_eq [OF assms]) (simp add: bound_def row_written_def)

lemma append_metric_builder:
  assumes "bound b" "append_metric e metric l b = (None, l', b')"
  shows "builder b' = row_written metric (metricID l) (resID l') (scopeID l') (builder b)"
  by (subst append_metric_eq [OF assms]) simp

lemma append_metric_frame:
  assumes "bound b" "append_metric e metric l b = (None, l', b')"
  shows "frame b b'"
  by (subst append_metric_eq [OF assms]) (simp add: frame_def)

lemma loop_Cons_ok:
  assumes "append_loop e (metric # rest) l b = (None, b')"
  obtains l1 b1 where "append_metric e metric l b = (None, l1, b1)" "append_loop e rest l1 b1 = (None, b')"
  using assms by (auto split: prod.splits option.splits)

lemma frame_refl: "frame b b"
  by (simp add: frame_def)

lemma append_loop_frame:
  "bound b \<Longrightarrow> append_loop e rows l b = (None, b') \<Longrightarrow> frame b b' \<and> bound b'"
proof (induction rows arbitrary: l b)
  case Nil
  then show ?case by (simp add: frame_refl)
next
  case (Cons metric rest)
  from Cons.prems(2) obtain l1 b1 where
    m: "append_metric e metric l b = (None, l1, b1)" and r: "append_loop e rest l1 b1 = (None, b')"
    by (rule loop_Cons_ok)
  have b1: "bound b1" by (rule append_metric_bound [OF Cons.prems(1) m])
  from Cons.IH [OF b1 r] append_metric_frame [OF Cons.prems(1) m]
  show ?case by (blast intro: frame_trans)
qed

lemma upt_shift: "map f [0..<Suc n] = f 0 # map (\<lambda>i. f (Suc i)) [0..<n]"
  by (simp add: upt_conv_Cons map_Suc_upt [symmetric] del: upt_Suc)

lemma append_loop_ids:
  "bound b \<Longrightarrow> append_loop e rows l b = (None, b') \<Longrightarrow>
     col_id (builder b') = col_id (builder b) @ map (\<lambda>i. metricID l + of_nat i) [0..<length rows]"
proof (induction rows arbitrary: l b)
  case Nil
  then show ?case by simp
next
  case (Cons metric rest)
  from Cons.prems(2) obtain l1 b1 where
    m: "append_metric e metric l b = (None, l1, b1)" and r: "append_loop e rest l1 b1 = (None, b')"
    by (rule loop_Cons_ok)
  have b1: "bound b1" by (rule append_metric_bound [OF Cons.prems(1) m])
  have id1: "metricID l1 = metricID l + 1" by (rule append_metric_locals(1) [OF m])
  have c1: "col_id (builder b1) = col_id (builder b) @ [metricID l]"
    by (simp add: append_metric_builder [OF Cons.prems(1) m] row_written_def)
  show ?case
    unfolding Cons.IH [OF b1 r] c1 id1 list.size
    by (simp add: upt_shift add.assoc del: upt_Suc)
qed

lemma append_loop_columns:
  "bound b \<Longrightarrow> append_loop e rows l b = (None, b') \<Longrightarrow>
     col_schema_url (builder b') = col_schema_url (builder b) @ map (\<lambda>r. AppendNonEmpty (ScopeSchemaUrl r)) rows
   \<and> col_metric_type (builder b') = col_metric_type (builder b) @ map (\<lambda>r. ucast (m_type (Metric r))) rows
   \<and> col_name (builder b') = col_name (builder b) @ map (\<lambda>r. AppendNonEmpty (m_name (Metric r))) rows
   \<and> col_description (builder b') = col_description (builder b) @ map (\<lambda>r. AppendNonEmpty (m_description (Metric r))) rows
   \<and> col_unit (builder b') = col_unit (builder b) @ map (\<lambda>r. AppendNonEmpty (m_unit (Metric r))) rows
   \<and> col_aggregation_temporality (builder b') =
         col_aggregation_temporality (builder b) @ concat (map (\<lambda>r. atb_cells (Metric r)) rows)
   \<and> col_is_monotonic (builder b') =
         col_is_monotonic (builder b) @ concat (map (\<lambda>r. imb_cells (Metric r)) rows)"
proof (induction rows arbitrary: l b)
  case Nil
  then show ?case by simp
next
  case (Cons metric rest)
  from Cons.prems(2) obtain l1 b1 where
    m: "append_metric e metric l b = (None, l1, b1)" and r: "append_loop e rest l1 b1 = (None, b')"
    by (rule loop_Cons_ok)
  have b1: "bound b1" by (rule append_metric_bound [OF Cons.prems(1) m])
  have row: "builder b1 = row_written metric (metricID l) (resID l1) (scopeID l1) (builder b)"
    by (rule append_metric_builder [OF Cons.prems(1) m])
  show ?case using Cons.IH [OF b1 r] by (simp add: row row_written_def)
qed

lemma append_loop_scalars:
  assumes "bound b" "append_loop e rows l b = (None, b')"
  shows "col_schema_url (builder b') = col_schema_url (builder b) @ map (\<lambda>r. AppendNonEmpty (ScopeSchemaUrl r)) rows"
    and "col_metric_type (builder b') = col_metric_type (builder b) @ map (\<lambda>r. ucast (m_type (Metric r))) rows"
    and "col_name (builder b') = col_name (builder b) @ map (\<lambda>r. AppendNonEmpty (m_name (Metric r))) rows"
    and "col_description (builder b') = col_description (builder b) @ map (\<lambda>r. AppendNonEmpty (m_description (Metric r))) rows"
    and "col_unit (builder b') = col_unit (builder b) @ map (\<lambda>r. AppendNonEmpty (m_unit (Metric r))) rows"
    and "col_aggregation_temporality (builder b') =
           col_aggregation_temporality (builder b) @ concat (map (\<lambda>r. atb_cells (Metric r)) rows)"
    and "col_is_monotonic (builder b') =
           col_is_monotonic (builder b) @ concat (map (\<lambda>r. imb_cells (Metric r)) rows)"
  using append_loop_columns [OF assms] by blast+

lemma uint8_of_int32: "uint (ucast (t :: 32 word) :: 8 word) = sint t mod 256"
proof -
  have "uint (ucast t :: 8 word) = take_bit 8 (uint t)"
    by (simp add: unsigned_ucast_eq)
  also have "\<dots> = take_bit 8 (sint t)"
    by (simp add: sint_uint take_bit_signed_take_bit)
  also have "\<dots> = sint t mod 256"
    by (simp add: take_bit_eq_mod)
  finally show ?thesis .
qed

lemma uint8_of_int32_same:
  "uint (ucast (t :: 32 word) :: 8 word) = sint t \<longleftrightarrow> 0 \<le> sint t \<and> sint t < 256"
  unfolding uint8_of_int32 by auto

lemmas example_defs = empty_RecordBuilderExt_def accepting_def example_builder_def example_row_def
  example_metric_def scenario_rows_def NewMetricsBuilder_def init_def NewRelatedData_def NewAttrsAccumulator_def
  SetMaxDelta_def Uint16DeltaBuilder_of_def Let_def

lemmas run_defs = Append_def append_metric_def resource_part_def scope_part_def scalar_part_def
  kind_part_def col_ops via_def acc_Append_def NumberDP_Append_def SummaryDP_Append_def
  HistogramDP_Append_def EHistogramDP_Append_def locals0_def AppendNonEmpty_def MetricType_defs

lemma resource_part_accepts:
  "accepts e metric \<Longrightarrow> fst (resource_part e metric l b) = None"
  by (simp add: accepts_def resource_part_def acc_Append_def Let_def)

lemma scope_part_accepts:
  "accepts e metric \<Longrightarrow> fst (scope_part e metric l b) = None"
  by (simp add: accepts_def scope_part_def acc_Append_def Let_def)

lemma append_metric_accepts:
  assumes "accepts e metric"
  shows "fst (append_metric e metric l b) = None"
proof -
  let ?l1 = "l\<lparr>metricID := metricID l + 1\<rparr>" and ?b1 = "ib_Append (metricID l) b"
  obtain l2 b2 where r: "resource_part e metric ?l1 ?b1 = (None, l2, b2)"
    using resource_part_accepts [OF assms, of ?l1 ?b1] by (cases "resource_part e metric ?l1 ?b1") auto
  obtain l3 b3 where s: "scope_part e metric l2 b2 = (None, l3, b3)"
    using scope_part_accepts [OF assms, of l2 b2] by (cases "scope_part e metric l2 b2") auto
  show ?thesis by (simp add: append_metric_def Let_def r s)
qed

lemma append_loop_accepts:
  "\<forall>r \<in> set rows. accepts e r \<Longrightarrow> fst (append_loop e rows l b) = None"
proof (induction rows arbitrary: l b)
  case Nil
  then show ?case by simp
next
  case (Cons metric rest)
  then have "fst (append_metric e metric l b) = None" by (simp add: append_metric_accepts)
  then obtain l1 b1 where "append_metric e metric l b = (None, l1, b1)"
    by (cases "append_metric e metric l b") auto
  with Cons show ?case by simp
qed

lemma accepts_accepting: "accepts accepting r"
  by (simp add: accepts_def accepting_def)

lemma example_builder_ready: "\<not> released (example_builder rows)" "bound (example_builder rows)"
  "optimizer (example_builder rows) m = rows" "builder (example_builder rows) = empty_RecordBuilderExt"
  by (simp_all add: example_defs bound_def)

lemma Append_loop: "\<not> released b \<Longrightarrow> Append e b m = append_loop e (optimizer b m) locals0 b"
  by (simp add: Append_def)

lemma Append_ok_snd:
  assumes "\<not> released b" "fst (Append e b metrics) = None"
  shows "append_loop e (optimizer b metrics) locals0 b = (None, snd (Append e b metrics))"
  using assms by (metis Append_loop prod.collapse)

lemma handled_cells:
  "handled_kind (m_type m) \<Longrightarrow> atb_cells m = [claimed_temporality m] \<and> imb_cells m = [claimed_monotonic m]"
  by (auto simp: handled_kind_def atb_cells_def imb_cells_def claimed_temporality_def claimed_monotonic_def
      MetricType_defs)

lemma unhandled_cells:
  "\<not> handled_kind (m_type m) \<Longrightarrow> atb_cells m = [] \<and> imb_cells m = []"
  by (auto simp: handled_kind_def atb_cells_def imb_cells_def)

lemma concat_cells:
  "\<forall>x \<in> set xs. (P x \<longrightarrow> f x = [g x]) \<and> (\<not> P x \<longrightarrow> f x = []) \<Longrightarrow>
     concat (map f xs) = map g (filter P xs)"
  by (induction xs) simp_all

text \<open>
  Claim C8.  On an \<open>Append\<close> that returns no error, every row of a handled kind adds one
  cell to each kind-specific column, in row order: the aggregation-temporality column
  receives a null for gauge, summary and empty and the kind's aggregation temporality for
  sum, histogram and exponential histogram; the is-monotonic column receives the monotonic
  flag for sum and a null for every other handled kind.
\<close>
theorem Append_kind_columns:
  assumes "\<not> released b" and "bound b" and "fst (Append e b metrics) = None"
  shows "col_aggregation_temporality (builder (snd (Append e b metrics))) =
           col_aggregation_temporality (builder b) @
             map (\<lambda>r. claimed_temporality (Metric r))
               (filter (\<lambda>r. handled_kind (m_type (Metric r))) (optimizer b metrics))
       \<and> col_is_monotonic (builder (snd (Append e b metrics))) =
           col_is_monotonic (builder b) @
             map (\<lambda>r. claimed_monotonic (Metric r))
               (filter (\<lambda>r. handled_kind (m_type (Metric r))) (optimizer b metrics))"
proof -
  note run = Append_ok_snd [OF assms(1,3)]
  have a: "concat (map (\<lambda>r. atb_cells (Metric r)) (optimizer b metrics)) =
             map (\<lambda>r. claimed_temporality (Metric r))
               (filter (\<lambda>r. handled_kind (m_type (Metric r))) (optimizer b metrics))"
    by (intro concat_cells) (simp add: handled_cells unhandled_cells)
  have m: "concat (map (\<lambda>r. imb_cells (Metric r)) (optimizer b metrics)) =
             map (\<lambda>r. claimed_monotonic (Metric r))
               (filter (\<lambda>r. handled_kind (m_type (Metric r))) (optimizer b metrics))"
    by (intro concat_cells) (simp add: handled_cells unhandled_cells)
  show ?thesis
    by (simp add: append_loop_scalars(6,7) [OF assms(2) run] a m)
qed

lemma two_rows_accepted: "fst (Append accepting (example_builder two_rows) []) = None"
  by (simp add: Append_loop example_builder_ready append_loop_accepts accepts_accepting)

theorem Append_kind_columns_witness:
  "col_aggregation_temporality (builder (snd (Append accepting (example_builder two_rows) []))) = [None, Some 2]
   \<and> col_is_monotonic (builder (snd (Append accepting (example_builder two_rows) []))) = [None, Some True]"
  using Append_kind_columns [OF example_builder_ready(1,2) two_rows_accepted]
  by (simp add: example_builder_ready empty_RecordBuilderExt_def two_rows_def example_row_def
      example_metric_def claimed_temporality_def claimed_monotonic_def handled_kind_def MetricType_defs)

text \<open>
  Claim C9.  \<open>Append\<close> writes \<open>uint8(metric.Metric.Type())\<close> to the metric-type column:
  the stored byte is the \<open>int32\<close> kind modulo 256, and it equals the kind exactly when the
  kind lies in 0..255.
\<close>
theorem Append_metric_type_uint8:
  assumes "\<not> released b" and "bound b" and "fst (Append e b metrics) = None"
  shows "col_metric_type (builder (snd (Append e b metrics))) =
           col_metric_type (builder b) @ map (\<lambda>r. ucast (m_type (Metric r))) (optimizer b metrics)
       \<and> (\<forall>r \<in> set (optimizer b metrics).
            uint (ucast (m_type (Metric r)) :: 8 word) = sint (m_type (Metric r)) mod 256
          \<and> (uint (ucast (m_type (Metric r)) :: 8 word) = sint (m_type (Metric r))
               \<longleftrightarrow> 0 \<le> sint (m_type (Metric r)) \<and> sint (m_type (Metric r)) < 256))"
  by (intro conjI ballI)
    (rule append_loop_scalars(2) [OF assms(2) Append_ok_snd [OF assms(1,3)]] uint8_of_int32
       uint8_of_int32_same)+

lemma wide_rows_accepted: "fst (Append accepting (example_builder wide_rows) []) = None"
  by (simp add: Append_loop example_builder_ready append_loop_accepts accepts_accepting)

theorem Append_metric_type_uint8_witness:
  "col_metric_type (builder (snd (Append accepting (example_builder wide_rows) []))) = [2, 2]"
  using Append_metric_type_uint8 [OF example_builder_ready(1,2) wide_rows_accepted]
  by (simp add: example_builder_ready empty_RecordBuilderExt_def wide_rows_def example_row_def example_metric_def)

text \<open>
  Claim C10.  The scope schema URL, the metric name, the description and the unit go
  through \<open>AppendNonEmpty\<close>: an empty string is stored as a null and any other string as
  itself, in the name column as in the three optional ones.
\<close>
theorem Append_empty_strings_null:
  assumes "\<not> released b" and "bound b" and "fst (Append e b metrics) = None"
  shows "col_schema_url (builder (snd (Append e b metrics))) = col_schema_url (builder b) @
           map (\<lambda>r. if ScopeSchemaUrl r = [] then None else Some (ScopeSchemaUrl r)) (optimizer b metrics)
       \<and> col_name (builder (snd (Append e b metrics))) = col_name (builder b) @
           map (\<lambda>r. if m_name (Metric r) = [] then None else Some (m_name (Metric r))) (optimizer b metrics)
       \<and> col_description (builder (snd (Append e b metrics))) = col_description (builder b) @
           map (\<lambda>r. if m_description (Metric r) = [] then None else Some (m_description (Metric r))) (optimizer b metrics)
       \<and> col_unit (builder (snd (Append e b metrics))) = col_unit (builder b) @
           map (\<lambda>r. if m_unit (Metric r) = [] then None else Some (m_unit (Metric r))) (optimizer b metrics)"
  using append_loop_scalars(1,3,4,5) [OF assms(2) Append_ok_snd [OF assms(1,3)]]
  by (simp add: AppendNonEmpty_def)

theorem Append_empty_strings_null_witness:
  "col_schema_url (builder (snd (Append accepting (example_builder two_rows) []))) = [None, None]
   \<and> col_name (builder (snd (Append accepting (example_builder two_rows) []))) = [Some ''a'', None]
   \<and> col_description (builder (snd (Append accepting (example_builder two_rows) []))) = [None, None]
   \<and> col_unit (builder (snd (Append accepting (example_builder two_rows) []))) = [Some ''ms'', Some ''ms'']"
  using Append_empty_strings_null [OF example_builder_ready(1,2) two_rows_accepted]
  by (simp add: example_builder_ready empty_RecordBuilderExt_def two_rows_def example_row_def example_metric_def)

text \<open>
  Claim C5.  On a released builder \<open>Append\<close> and \<open>Build\<close> return the wrapped
  \<open>ErrBuilderAlreadyReleased\<close> and the builder they leave is the one they were given.
\<close>
theorem released_rejects_Append_Build:
  assumes "released b"
  shows "Append e b metrics = (Some (Wrap ErrBuilderAlreadyReleased), b)
       \<and> Build NewRecord b = (Inl (Wrap ErrBuilderAlreadyReleased), b)"
  using assms by (simp add: Append_def Build_def)

theorem released_rejects_Append_Build_witness:
  "released (Release (example_builder two_rows))
   \<and> Append accepting (Release (example_builder two_rows)) [] =
       (Some (Wrap ErrBuilderAlreadyReleased), Release (example_builder two_rows))
   \<and> Build failing_NewRecord (Release (example_builder two_rows)) =
       (Inl (Wrap ErrBuilderAlreadyReleased), Release (example_builder two_rows))"
proof -
  have h: "released (Release (example_builder two_rows))" by (simp add: Release_def)
  from h released_rejects_Append_Build [OF h, of accepting "[]" failing_NewRecord] show ?thesis by simp
qed

text \<open>
  Claim C6.  \<open>Release\<close> after \<open>Release\<close> is \<open>Release\<close>; on a released builder it changes
  nothing; and two calls in a row on an open builder release the record builder and the
  related data exactly once each.
\<close>
theorem Release_idempotent:
  "Release (Release b) = Release b
   \<and> (released b \<longrightarrow> Release b = b)
   \<and> (\<not> released b \<longrightarrow>
        rb_release_calls (builder (Release (Release b))) = Suc (rb_release_calls (builder b))
      \<and> rd_release_calls (relatedData (Release (Release b))) = Suc (rd_release_calls (relatedData b)))"
  by (simp add: Release_def)

theorem Release_idempotent_witness:
  "\<not> released (example_builder two_rows)
   \<and> released (Release (example_builder two_rows))
   \<and> Release (Release (example_builder two_rows)) = Release (example_builder two_rows)
   \<and> rb_release_calls (builder (Release (Release (example_builder two_rows)))) = 1
   \<and> rd_release_calls (relatedData (Release (Release (example_builder two_rows)))) = 1"
  using Release_idempotent [of "example_builder two_rows"] Release_idempotent [of "Release (example_builder two_rows)"]
  by (simp add: example_builder_ready) (simp add: Release_def example_defs)

lemma col_id_via: "(\<And>r. col_id (f r) = col_id r) \<Longrightarrow> col_id (via g f r) = col_id r"
  by (simp add: via_def)

lemma col_id_resource_part:
  "resource_part e metric l b = (x, l', b') \<Longrightarrow> col_id (builder b') = col_id (builder b)"
  by (auto simp: resource_part_def col_ops col_id_via acc_Append_def Let_def split: if_splits)

lemma col_id_scope_part:
  "scope_part e metric l b = (x, l', b') \<Longrightarrow> col_id (builder b') = col_id (builder b)"
  by (auto simp: scope_part_def col_ops col_id_via acc_Append_def Let_def split: if_splits)

lemma col_id_scalar_part: "col_id (builder (scalar_part metric b)) = col_id (builder b)"
  by (simp add: scalar_part_def col_ops col_id_via)

lemma col_id_kind_part: "col_id (builder (kind_part ID m b)) = col_id (builder b)"
  by (simp add: kind_part_def col_ops dp_ops col_id_via)

lemma append_metric_col_id:
  assumes bd: "bound b" and run: "append_metric e metric l b = (x, l', b')"
  shows "col_id (builder b') = col_id (builder b) @ [metricID l]"
proof -
  let ?l1 = "l\<lparr>metricID := metricID l + 1\<rparr>" and ?b1 = "ib_Append (metricID l) b"
  have c1: "col_id (builder ?b1) = col_id (builder b) @ [metricID l]"
    by (simp add: ib_Append_eq [OF bd])
  obtain x2 l2 b2 where r: "resource_part e metric ?l1 ?b1 = (x2, l2, b2)"
    by (cases "resource_part e metric ?l1 ?b1") auto
  note c2 = col_id_resource_part [OF r]
  show ?thesis
  proof (cases x2)
    case (Some err)
    with run r have "b' = b2" by (simp add: append_metric_def Let_def)
    with c1 c2 show ?thesis by simp
  next
    case None
    obtain x3 l3 b3 where s: "scope_part e metric l2 b2 = (x3, l3, b3)"
      by (cases "scope_part e metric l2 b2") auto
    note c3 = col_id_scope_part [OF s]
    show ?thesis
    proof (cases x3)
      case (Some err)
      with run r s None have "b' = b3" by (simp add: append_metric_def Let_def)
      with c1 c2 c3 show ?thesis by simp
    next
      case n3: None
      with run r s None have "b' = kind_part (metricID l) (Metric metric) (scalar_part metric b3)"
        by (simp add: append_metric_def Let_def)
      with c1 c2 c3 show ?thesis by (simp add: col_id_kind_part col_id_scalar_part)
    qed
  qed
qed

lemma append_loop_ids_any:
  "bound b \<Longrightarrow> append_loop e rows l b = (x, b') \<Longrightarrow>
     \<exists>k \<le> length rows. (x = None \<longrightarrow> k = length rows) \<and>
       col_id (builder b') = col_id (builder b) @ map (\<lambda>i. metricID l + of_nat i) [0..<k]"
proof (induction rows arbitrary: l b)
  case Nil
  then show ?case by simp
next
  case (Cons metric rest)
  obtain x1 l1 b1 where m: "append_metric e metric l b = (x1, l1, b1)"
    by (cases "append_metric e metric l b") auto
  note c1 = append_metric_col_id [OF Cons.prems(1) m]
  show ?case
  proof (cases x1)
    case (Some err)
    with Cons.prems(2) m have "b' = b1" "x = Some err" by simp_all
    with c1 have "col_id (builder b') = col_id (builder b) @ map (\<lambda>i. metricID l + of_nat i) [0..<Suc 0]"
      by simp
    with \<open>x = Some err\<close> show ?thesis by (intro exI [of _ "Suc 0"]) simp
  next
    case None
    with Cons.prems(2) m have r: "append_loop e rest l1 b1 = (x, b')" by simp
    have b1: "bound b1" using append_metric_bound [OF Cons.prems(1)] m None by simp
    have id1: "metricID l1 = metricID l + 1" using append_metric_locals(1) m None by simp
    from Cons.IH [OF b1 r] obtain k where k: "k \<le> length rest" "x = None \<longrightarrow> k = length rest"
      "col_id (builder b') = col_id (builder b1) @ map (\<lambda>i. metricID l1 + of_nat i) [0..<k]"
      by (elim exE conjE) (rule that, assumption+)
    have "col_id (builder b') = col_id (builder b) @ map (\<lambda>i. metricID l + of_nat i) [0..<Suc k]"
      unfolding k(3) c1 id1 by (simp add: upt_shift add.assoc del: upt_Suc)
    with k(1,2) show ?thesis by (intro exI [of _ "Suc k"]) simp
  qed
qed

lemma unat_ids: "k \<le> 65536 \<Longrightarrow> map unat (map of_nat [0..<k] :: 16 word list) = [0..<k]"
proof (rule nth_equalityI)
  show "length (map unat (map of_nat [0..<k] :: 16 word list)) = length [0..<k]" by simp
next
  fix i
  assume k: "k \<le> 65536" and "i < length (map unat (map of_nat [0..<k] :: 16 word list))"
  then have "i < k" "i < 65536" by simp_all
  then show "map unat (map of_nat [0..<k] :: 16 word list) ! i = [0..<k] ! i"
    by (simp add: unat_of_nat del: upt_Suc)
qed

lemma ids_wrap:
  assumes "65536 < n"
  shows "\<not> sorted_wrt (<) (map unat (map of_nat [0..<n] :: 16 word list))"
proof
  let ?ids = "map unat (map of_nat [0..<n] :: 16 word list)"
  assume "sorted_wrt (<) ?ids"
  moreover have "(0::nat) < 65536" "65536 < length ?ids" using assms by simp_all
  ultimately have "?ids ! 0 < ?ids ! 65536" by (rule sorted_wrt_nth_less)
  moreover have "?ids ! 65536 = 0" using assms by (simp del: upt_Suc)
  ultimately show False by simp
qed

text \<open>
  Claim C2.  The claim: for every batch the ids \<open>Append\<close> writes are 0, 1, 2, ... strictly
  increasing.  The id is a \<open>uint16\<close> counter, so the sequence is 0, 1, 2, ... only up to
  65536 rows.  As amended: for a batch of at most 65536 optimized rows, the ids this call
  appends to the id column are exactly 0, 1, ..., k - 1 in order (k the number of rows
  reached, all of them when no error is returned), each one more than the one before,
  which is the configured maximum delta 1.
\<close>
theorem Append_row_ids:
  assumes "\<not> released b" and "bound b" and "length (optimizer b metrics) \<le> 65536"
  shows "\<exists>k ids. k \<le> length (optimizer b metrics)
           \<and> (fst (Append e b metrics) = None \<longrightarrow> k = length (optimizer b metrics))
           \<and> col_id (builder (snd (Append e b metrics))) = col_id (builder b) @ ids
           \<and> map unat ids = [0..<k]
           \<and> sorted_wrt (<) (map unat ids)
           \<and> (\<forall>i. Suc i < k \<longrightarrow> unat (ids ! Suc i) = unat (ids ! i) + maxDelta (ib b))"
proof -
  let ?rows = "optimizer b metrics"
  have run: "append_loop e ?rows locals0 b = (fst (Append e b metrics), snd (Append e b metrics))"
    using assms(1) by (simp add: Append_loop)
  from append_loop_ids_any [OF assms(2) run] obtain k where k: "k \<le> length ?rows"
    "fst (Append e b metrics) = None \<longrightarrow> k = length ?rows"
    "col_id (builder (snd (Append e b metrics))) = col_id (builder b) @ map (\<lambda>i. metricID locals0 + of_nat i) [0..<k]"
    by (elim exE conjE) (rule that, assumption+)
  let ?ids = "map of_nat [0..<k] :: 16 word list"
  have c: "col_id (builder (snd (Append e b metrics))) = col_id (builder b) @ ?ids"
    using k(3) by (simp add: locals0_def)
  have u: "map unat ?ids = [0..<k]" using k(1) assms(3) by (intro unat_ids) simp
  have s: "sorted_wrt (<) (map unat ?ids)" unfolding u by simp
  have d: "\<forall>i. Suc i < k \<longrightarrow> unat (?ids ! Suc i) = unat (?ids ! i) + maxDelta (ib b)"
  proof (intro allI impI)
    fix i assume i: "Suc i < k"
    then have lt: "Suc i < length ?ids" "i < length ?ids" by simp_all
    have md: "maxDelta (ib b) = 1" using assms(2) by (simp add: bound_def)
    have "unat (?ids ! Suc i) = map unat ?ids ! Suc i" by (rule nth_map [OF lt(1), symmetric])
    also have "\<dots> = Suc i" unfolding u using i by (simp del: upt_Suc)
    finally have a: "unat (?ids ! Suc i) = Suc i" .
    have "unat (?ids ! i) = map unat ?ids ! i" by (rule nth_map [OF lt(2), symmetric])
    also have "\<dots> = i" unfolding u using i by (simp del: upt_Suc)
    finally have b: "unat (?ids ! i) = i" .
    show "unat (?ids ! Suc i) = unat (?ids ! i) + maxDelta (ib b)" unfolding a b md by simp
  qed
  show ?thesis
    by (intro exI [of _ k] exI [of _ ?ids] conjI) (fact k(1) k(2) c u s d)+
qed

theorem Append_row_ids_witness:
  "col_id (builder (snd (Append accepting (example_builder two_rows) []))) = [0, 1]"
proof -
  have len: "length (optimizer (example_builder two_rows) []) \<le> 65536"
    by (simp add: example_builder_ready two_rows_def)
  from Append_row_ids [OF example_builder_ready(1,2) len, of accepting]
  obtain k ids where k: "fst (Append accepting (example_builder two_rows) []) = None \<longrightarrow> k = length (optimizer (example_builder two_rows) [])"
    "col_id (builder (snd (Append accepting (example_builder two_rows) []))) = col_id (builder (example_builder two_rows)) @ ids"
    "map unat ids = [0..<k]"
    by (elim exE conjE) (rule that, assumption+)
  from k(1) two_rows_accepted have "k = length two_rows" by (simp add: example_builder_ready)
  then have k2: "k = 2" by (simp add: two_rows_def)
  have "map (word_of_nat \<circ> unat) ids = (map of_nat [0..<k] :: 16 word list)"
    using k(3) by (metis map_map)
  moreover have "map (word_of_nat \<circ> unat) ids = ids" by (rule map_idI) simp
  ultimately have "ids = [0, 1]" unfolding k2 by (simp add: upt_rec)
  with k(2) show ?thesis by (simp add: example_builder_ready empty_RecordBuilderExt_def)
qed

theorem Append_row_ids_wrap_counterexample:
  "fst (Append accepting (example_builder many_rows) []) = None
   \<and> \<not> sorted_wrt (<) (map unat (col_id (builder (snd (Append accepting (example_builder many_rows) [])))))"
proof -
  let ?b = "example_builder many_rows"
  have A: "Append accepting ?b [] = append_loop accepting many_rows locals0 ?b"
    by (simp add: Append_loop example_builder_ready)
  have ok: "fst (append_loop accepting many_rows locals0 ?b) = None"
    by (simp add: append_loop_accepts accepts_accepting)
  then have R: "append_loop accepting many_rows locals0 ?b = (None, snd (append_loop accepting many_rows locals0 ?b))"
    by (metis prod.collapse)
  have len: "65536 < length many_rows" by (simp add: many_rows_def)
  have "col_id (builder (snd (append_loop accepting many_rows locals0 ?b))) = map of_nat [0..<length many_rows]"
    unfolding append_loop_ids [OF example_builder_ready(2) R]
    by (simp add: example_builder_ready empty_RecordBuilderExt_def locals0_def del: upt_Suc)
  with ids_wrap [OF len] ok show ?thesis unfolding A by simp
qed

text \<open>
  Claim C7.  When \<open>NewRecord\<close> fails on an open builder, \<open>Build\<close> returns that error after
  running \<open>init\<close> on the record builder as \<open>NewRecord\<close> left it: every column builder is
  taken again from the current record builder, the builder stays open, and the next
  \<open>Append\<close> runs its loop and writes its rows into the current record builder.
\<close>
theorem Build_failure_reinitializes:
  assumes "\<not> released b" and "NewRecord (builder b) = (Inl err, r')"
  shows "Build NewRecord b = (Inl err, snd (init (b\<lparr>builder := r'\<rparr>)))
       \<and> \<not> released (snd (Build NewRecord b))
       \<and> bound (snd (Build NewRecord b))
       \<and> builder (snd (Build NewRecord b)) = r'
       \<and> Append e (snd (Build NewRecord b)) metrics =
           append_loop e (optimizer b metrics) locals0 (snd (Build NewRecord b))
       \<and> (fst (Append e (snd (Build NewRecord b)) metrics) = None \<longrightarrow>
            col_id (builder (snd (Append e (snd (Build NewRecord b)) metrics))) =
              col_id r' @ map of_nat [0..<length (optimizer b metrics)])"
proof -
  let ?b' = "snd (init (b\<lparr>builder := r'\<rparr>))"
  have B: "Build NewRecord b = (Inl err, ?b')"
    using assms by (simp add: Build_def init_def Let_def)
  have rel: "\<not> released ?b'" using assms(1) by (simp add: init_def Let_def)
  have bd: "bound ?b'" by (rule bound_init)
  have bu: "builder ?b' = r'" by (simp add: init_def Let_def)
  have op: "optimizer ?b' = optimizer b" by (simp add: init_def Let_def)
  have A: "Append e ?b' metrics = append_loop e (optimizer b metrics) locals0 ?b'"
    using rel by (simp add: Append_loop op)
  have W: "col_id (builder (snd (Append e ?b' metrics))) = col_id r' @ map of_nat [0..<length (optimizer b metrics)]"
    if ok: "fst (Append e ?b' metrics) = None"
  proof -
    have "append_loop e (optimizer b metrics) locals0 ?b' = (None, snd (Append e ?b' metrics))"
      using ok A by (metis prod.collapse)
    from append_loop_ids [OF bd this] show ?thesis by (simp add: bu locals0_def)
  qed
  show ?thesis unfolding B using rel bd bu A W by simp
qed

theorem Build_failure_reinitializes_witness:
  "\<not> released (example_builder two_rows)
   \<and> failing_NewRecord (builder (example_builder two_rows)) = (Inl ErrBuild, empty_RecordBuilderExt\<lparr>rb_gen := 1\<rparr>)
   \<and> \<not> bound ((example_builder two_rows)\<lparr>builder := empty_RecordBuilderExt\<lparr>rb_gen := 1\<rparr>\<rparr>)
   \<and> fst (Build failing_NewRecord (example_builder two_rows)) = Inl ErrBuild
   \<and> \<not> released (snd (Build failing_NewRecord (example_builder two_rows)))
   \<and> bound (snd (Build failing_NewRecord (example_builder two_rows)))"
proof -
  have h: "failing_NewRecord (builder (example_builder two_rows)) = (Inl ErrBuild, empty_RecordBuilderExt\<lparr>rb_gen := 1\<rparr>)"
    by (simp add: failing_NewRecord_def example_builder_ready empty_RecordBuilderExt_def)
  have s: "\<not> bound ((example_builder two_rows)\<lparr>builder := empty_RecordBuilderExt\<lparr>rb_gen := 1\<rparr>\<rparr>)"
    by (simp add: bound_def example_defs)
  have r: "\<not> released (example_builder two_rows)" by (rule example_builder_ready(1))
  note T = Build_failure_reinitializes [where b = "example_builder two_rows" and NewRecord = failing_NewRecord
      and e = accepting and metrics = "[]", OF r h]
  have 1: "fst (Build failing_NewRecord (example_builder two_rows)) = Inl ErrBuild"
    by (simp add: conjunct1 [OF T])
  have 2: "\<not> released (snd (Build failing_NewRecord (example_builder two_rows)))"
    by (rule conjunct1 [OF conjunct2 [OF T]])
  have 3: "bound (snd (Build failing_NewRecord (example_builder two_rows)))"
    by (rule conjunct1 [OF conjunct2 [OF conjunct2 [OF T]]])
  show ?thesis by (intro conjI) (fact r h s 1 2 3)+
qed

lemma group_ids_length [simp]: "length (group_ids prev cur n gs) = length gs"
  by (induction gs arbitrary: prev cur n) simp_all


















lemma keyed_first:
  assumes "keyed rows" and "rows \<noteq> []"
  shows "ResourceMetricsID (rows ! 0) \<noteq> []" and "ScopeMetricsID (rows ! 0) \<noteq> []"
  using assms by (cases rows; simp add: keyed_def)+







lemma dp_tables_resource_part:
  "resource_part e metric l b = (x, l', b') \<Longrightarrow> dp_tables (relatedData b') = dp_tables (relatedData b)"
  by (auto simp: dp_tables_def resource_part_def col_ops acc_Append_def Let_def split: if_splits)

lemma dp_tables_scope_part:
  "scope_part e metric l b = (x, l', b') \<Longrightarrow> dp_tables (relatedData b') = dp_tables (relatedData b)"
  by (auto simp: dp_tables_def scope_part_def col_ops acc_Append_def Let_def split: if_splits)

lemma dp_tables_kind_part:
  "dp_tables (relatedData (kind_part ID m b)) =
     (rd_number_dps (relatedData b) @
        (if m_type m = MetricTypeGauge \<or> m_type m = MetricTypeSum then map (Pair ID) (m_data_points m) else []),
      rd_summary_dps (relatedData b) @
        (if m_type m = MetricTypeSummary then map (Pair ID) (m_data_points m) else []),
      rd_histogram_dps (relatedData b) @
        (if m_type m = MetricTypeHistogram then map (Pair ID) (m_data_points m) else []),
      rd_ehistogram_dps (relatedData b) @
        (if m_type m = MetricTypeExponentialHistogram then map (Pair ID) (m_data_points m) else []))"
  by (simp add: dp_tables_def kind_part_def col_ops dp_ops MetricType_defs)

lemma append_metric_dp_tables:
  assumes "append_metric e metric l b = (None, l', b')"
  shows "dp_tables (relatedData b') =
     (rd_number_dps (relatedData b) @ dp_rows (\<lambda>t. t = MetricTypeGauge \<or> t = MetricTypeSum) (metricID l) [metric],
      rd_summary_dps (relatedData b) @ dp_rows (\<lambda>t. t = MetricTypeSummary) (metricID l) [metric],
      rd_histogram_dps (relatedData b) @ dp_rows (\<lambda>t. t = MetricTypeHistogram) (metricID l) [metric],
      rd_ehistogram_dps (relatedData b) @ dp_rows (\<lambda>t. t = MetricTypeExponentialHistogram) (metricID l) [metric])"
proof -
  from assms obtain l2 b2 b3 where
    r: "resource_part e metric (l\<lparr>metricID := metricID l + 1\<rparr>) (ib_Append (metricID l) b) = (None, l2, b2)"
    and s: "scope_part e metric l2 b2 = (None, l', b3)"
    and k: "b' = kind_part (metricID l) (Metric metric) (scalar_part metric b3)"
    by (rule append_metric_parts)
  have "dp_tables (relatedData b3) = dp_tables (relatedData b)"
    using dp_tables_scope_part [OF s] dp_tables_resource_part [OF r] by (simp add: col_ops)
  then have "rd_number_dps (relatedData b3) = rd_number_dps (relatedData b)"
    "rd_summary_dps (relatedData b3) = rd_summary_dps (relatedData b)"
    "rd_histogram_dps (relatedData b3) = rd_histogram_dps (relatedData b)"
    "rd_ehistogram_dps (relatedData b3) = rd_ehistogram_dps (relatedData b)"
    by (simp_all add: dp_tables_def)
  then show ?thesis unfolding k dp_tables_kind_part by (simp add: scalar_part_related)
qed

lemma append_loop_dp_tables:
  "bound b \<Longrightarrow> append_loop e rows l b = (None, b') \<Longrightarrow>
     dp_tables (relatedData b') =
       (rd_number_dps (relatedData b) @ dp_rows (\<lambda>t. t = MetricTypeGauge \<or> t = MetricTypeSum) (metricID l) rows,
        rd_summary_dps (relatedData b) @ dp_rows (\<lambda>t. t = MetricTypeSummary) (metricID l) rows,
        rd_histogram_dps (relatedData b) @ dp_rows (\<lambda>t. t = MetricTypeHistogram) (metricID l) rows,
        rd_ehistogram_dps (relatedData b) @ dp_rows (\<lambda>t. t = MetricTypeExponentialHistogram) (metricID l) rows)"
proof (induction rows arbitrary: l b)
  case Nil
  then show ?case by (simp add: dp_tables_def)
next
  case (Cons metric rest)
  from Cons.prems(2) obtain l1 b1 where
    m: "append_metric e metric l b = (None, l1, b1)" and r: "append_loop e rest l1 b1 = (None, b')"
    by (rule loop_Cons_ok)
  have b1: "bound b1" by (rule append_metric_bound [OF Cons.prems(1) m])
  have id1: "metricID l1 = metricID l + 1" by (rule append_metric_locals(1) [OF m])
  from append_metric_dp_tables [OF m] have
    "rd_number_dps (relatedData b1) =
       rd_number_dps (relatedData b) @ dp_rows (\<lambda>t. t = MetricTypeGauge \<or> t = MetricTypeSum) (metricID l) [metric]"
    "rd_summary_dps (relatedData b1) =
       rd_summary_dps (relatedData b) @ dp_rows (\<lambda>t. t = MetricTypeSummary) (metricID l) [metric]"
    "rd_histogram_dps (relatedData b1) =
       rd_histogram_dps (relatedData b) @ dp_rows (\<lambda>t. t = MetricTypeHistogram) (metricID l) [metric]"
    "rd_ehistogram_dps (relatedData b1) =
       rd_ehistogram_dps (relatedData b) @ dp_rows (\<lambda>t. t = MetricTypeExponentialHistogram) (metricID l) [metric]"
    by (simp_all add: dp_tables_def)
  then show ?case unfolding Cons.IH [OF b1 r] id1 by simp
qed

text \<open>
  Claim C1.  The claim: for a metric whose kind is none of gauge, sum, summary, histogram,
  exponential histogram and empty, \<open>Append\<close> writes a null into the aggregation-temporality
  and the is-monotonic column, contributes no data points, returns no error, and every
  column ends with one entry per row id.  The \<open>default\<close> branch of the switch appends
  nothing: on the batch gauge, sum, kind 6 the call returns no error, writes the ids 0, 1
  and 2 and the three metric types, and accumulates the data points of rows 0 and 1 only,
  but both kind-specific columns end with two entries, one fewer than the id column.
\<close>
theorem Append_unknown_kind_misaligned:
  "fst (Append accepting (example_builder scenario_rows) []) = None \<and>
   col_id (builder (snd (Append accepting (example_builder scenario_rows) []))) = [0, 1, 2] \<and>
   col_metric_type (builder (snd (Append accepting (example_builder scenario_rows) []))) = [1, 2, 6] \<and>
   col_aggregation_temporality (builder (snd (Append accepting (example_builder scenario_rows) []))) = [None, Some 2] \<and>
   col_is_monotonic (builder (snd (Append accepting (example_builder scenario_rows) []))) = [None, Some True] \<and>
   dp_tables (relatedData (snd (Append accepting (example_builder scenario_rows) []))) =
     ([(0, DataPoint 7), (1, DataPoint 7)], [], [], [])"
proof -
  let ?b = "example_builder scenario_rows"
  let ?R = "append_loop accepting scenario_rows locals0 ?b"
  have A: "Append accepting ?b [] = ?R"
    by (simp add: Append_loop example_builder_ready)
  have ok: "fst ?R = None" by (simp add: append_loop_accepts accepts_accepting)
  then have R: "?R = (None, snd ?R)" by (metis prod.collapse)
  note ids = append_loop_ids [OF example_builder_ready(2) R]
  note cols = append_loop_scalars [OF example_builder_ready(2) R]
  note dps = append_loop_dp_tables [OF example_builder_ready(2) R]
  have len: "length scenario_rows = 3" by (simp add: scenario_rows_def)
  have i: "col_id (builder (snd ?R)) = [0, 1, 2]"
    unfolding ids len by (simp add: example_builder_ready empty_RecordBuilderExt_def locals0_def upt_rec)
  have t: "col_metric_type (builder (snd ?R)) = [1, 2, 6]"
    unfolding cols by (simp add: example_builder_ready empty_RecordBuilderExt_def scenario_rows_def
        example_row_def example_metric_def MetricType_defs)
  have a: "col_aggregation_temporality (builder (snd ?R)) = [None, Some 2]"
    unfolding cols by (simp add: example_builder_ready empty_RecordBuilderExt_def scenario_rows_def
        example_row_def example_metric_def atb_cells_def MetricType_defs)
  have m: "col_is_monotonic (builder (snd ?R)) = [None, Some True]"
    unfolding cols by (simp add: example_builder_ready empty_RecordBuilderExt_def scenario_rows_def
        example_row_def example_metric_def imb_cells_def MetricType_defs)
  have d: "dp_tables (relatedData (snd ?R)) = ([(0, DataPoint 7), (1, DataPoint 7)], [], [], [])"
    unfolding dps by (simp add: example_defs locals0_def MetricType_defs)
  show ?thesis unfolding A using ok i t a m d by simp
qed

end
